theory Spec2Isabelle
  imports Complex_Main
begin

section \<open>Values and errors\<close>

text \<open>
  The exceptions raised by \<^verbatim>\<open>scenedetect/video_stream.py\<close> and
  \<^verbatim>\<open>scenedetect/backends/opencv.py\<close>. \<open>SeekError\<close> and \<open>VideoOpenFailure\<close> are the
  two classes declared in \<^verbatim>\<open>video_stream.py\<close>; the others are Python built-ins.
\<close>

datatype error = SeekError | VideoOpenFailure | ValueError | IOError | RuntimeError

text \<open>
  A Python number as the setters and \<open>seek\<close> distinguish it with \<open>isinstance\<close>: an
  \<open>int\<close> (unbounded) or a \<open>float\<close>. Floats are modelled by the real number they denote;
  NaN and the infinities are outside the model.
\<close>

datatype number = PyInt int | PyFloat real

text \<open>\<^verbatim>\<open>math.trunc\<close> and \<^verbatim>\<open>int(x)\<close> on a float: rounding towards zero.\<close>

definition trunc :: "real \<Rightarrow> int" where
  "trunc x = (if 0 \<le> x then \<lfloor>x\<rfloor> else \<lceil>x\<rceil>)"

section \<open>Downscale policy (\<^verbatim>\<open>video_stream.py\<close>)\<close>

text \<open>The dict \<^verbatim>\<open>DEFAULT_DOWNSCALE_FACTORS\<close>, in the order it is written.\<close>

definition DEFAULT_DOWNSCALE_FACTORS :: "(int \<times> int) list" where
  "DEFAULT_DOWNSCALE_FACTORS =
     [(3200, 12), (2100, 8), (1700, 6), (1200, 5), (900, 4), (600, 3), (400, 2)]"

text \<open>
  The body of the \<^verbatim>\<open>for width in ...\<close> loop of \<^verbatim>\<open>compute_downscale_factor\<close>: the
  first key that \<open>frame_width\<close> reaches returns its entry; falling off the end returns 1.
  Every key comes from the dict itself, so the subscript never raises \<open>KeyError\<close>.
\<close>

fun downscale_loop :: "(int \<times> int) list \<Rightarrow> int list \<Rightarrow> int \<Rightarrow> int" where
  "downscale_loop factors [] frame_width = 1"
| "downscale_loop factors (width # rest) frame_width =
     (if frame_width \<ge> width then the (map_of factors width)
      else downscale_loop factors rest frame_width)"

text \<open>\<^verbatim>\<open>sorted(DEFAULT_DOWNSCALE_FACTORS, reverse=True)\<close>: the keys, descending.\<close>

definition sorted_keys_desc :: "(int \<times> int) list \<Rightarrow> int list" where
  "sorted_keys_desc factors = rev (sort (map fst factors))"

definition compute_downscale_factor :: "int \<Rightarrow> int" where
  "compute_downscale_factor frame_width =
     downscale_loop DEFAULT_DOWNSCALE_FACTORS
       (sorted_keys_desc DEFAULT_DOWNSCALE_FACTORS) frame_width"

text \<open>
  The specification's wording of the lookup, over any table of (threshold, factor)
  pairs, for comparison with the loop: the thresholds of the table that do not exceed
  the width, and the factor paired with the largest of them, or 1 when there is none.
  It reads no constant of the code: a statement passes it the table it means.
\<close>

definition thresholds_upto :: "(int \<times> int) list \<Rightarrow> int \<Rightarrow> int list" where
  "thresholds_upto table w = filter (\<lambda>t. t \<le> w) (map fst table)"

definition downscale_by_largest_threshold :: "(int \<times> int) list \<Rightarrow> int \<Rightarrow> int" where
  "downscale_by_largest_threshold table w =
     (if thresholds_upto table w = [] then 1
      else the (map_of table (Max (set (thresholds_upto table w)))))"

section \<open>The stream contract (\<^verbatim>\<open>class VideoStream\<close>)\<close>

text \<open>The one field the abstract base class owns.\<close>

record video_stream =
  downscale :: int

text \<open>
  The \<open>downscale\<close> setter. The comparison with 1 is made on the value as passed, before
  any coercion; a value that is not an \<open>int\<close> is then truncated with \<^verbatim>\<open>int(...)\<close> after a
  warning. The result carries the updated stream and whether the warning was logged.
\<close>

definition number_less :: "number \<Rightarrow> int \<Rightarrow> bool" where
  "number_less v n = (case v of PyInt i \<Rightarrow> i < n | PyFloat x \<Rightarrow> x < of_int n)"

definition set_downscale ::
    "'a video_stream_scheme \<Rightarrow> number \<Rightarrow> error + ('a video_stream_scheme \<times> bool)" where
  "set_downscale s downscale_factor =
     (if number_less downscale_factor 1 then Inl ValueError
      else case downscale_factor of
             PyInt i \<Rightarrow> Inr (s\<lparr>downscale := i\<rparr>, False)
           | PyFloat x \<Rightarrow> Inr (s\<lparr>downscale := trunc x\<rparr>, True))"

section \<open>External collaborators\<close>

text \<open>
  The adapter drives one \<^verbatim>\<open>cv2.VideoCapture\<close> object and imports \<^verbatim>\<open>FrameTimecode\<close>
  and \<^verbatim>\<open>MINIMUM_FRAMES_PER_SECOND_FLOAT\<close> from \<^verbatim>\<open>scenedetect.frame_timecode\<close>. None
  of these is part of the two source files, so the adapter is modelled over any
  implementation of them: \<open>'c\<close> is the state of a decoder, \<open>'f\<close> a frame buffer.
\<close>

datatype cap_prop =
    CAP_PROP_POS_MSEC | CAP_PROP_POS_FRAMES | CAP_PROP_FRAME_WIDTH | CAP_PROP_FRAME_HEIGHT
  | CAP_PROP_FPS | CAP_PROP_FOURCC | CAP_PROP_FRAME_COUNT

text \<open>\<^verbatim>\<open>path_or_device: Union[str, int]\<close>.\<close>

datatype source = Path string | Device int

record ('c, 'f) externals =
  VideoCapture :: "source \<Rightarrow> 'c"
  isOpened :: "'c \<Rightarrow> bool"
  cap_get :: "'c \<Rightarrow> cap_prop \<Rightarrow> real"
  cap_set :: "'c \<Rightarrow> cap_prop \<Rightarrow> real \<Rightarrow> 'c"
  grab :: "'c \<Rightarrow> bool \<times> 'c"
  retrieve :: "'c \<Rightarrow> (bool \<times> 'f option) \<times> 'c"
  path_exists :: "string \<Rightarrow> bool"
  MINIMUM_FRAMES_PER_SECOND_FLOAT :: real
  seconds_to_frames :: "real \<Rightarrow> real \<Rightarrow> int"

text \<open>
  Modelled from the spec: \<^verbatim>\<open>FrameTimecode\<close> (module \<^verbatim>\<open>scenedetect.frame_timecode\<close> is
  not among the sources). A timecode is a zero-based frame number at a fixed frame rate;
  adding an integer offset gives the timecode \<open>frame_number + offset\<close> at the same rate, a
  timecode operand contributes its frame number, and a float operand (seconds) is
  converted to frames through the frame rate, by the conversion \<open>seconds_to_frames\<close> of
  the externals, whose rounding the specification leaves open.
\<close>

record frame_timecode =
  tc_frame_num :: int
  tc_framerate :: real

datatype target = TimecodeTarget frame_timecode | FloatTarget real | IntTarget int

definition FrameTimecode :: "int \<Rightarrow> real \<Rightarrow> frame_timecode" where
  "FrameTimecode timecode fps = \<lparr>tc_frame_num = timecode, tc_framerate = fps\<rparr>"

definition get_frames :: "frame_timecode \<Rightarrow> int" where
  "get_frames tc = tc_frame_num tc"

definition timecode_add :: "('c, 'f) externals \<Rightarrow> frame_timecode \<Rightarrow> target \<Rightarrow> frame_timecode" where
  "timecode_add E tc other =
     (case other of
        IntTarget n \<Rightarrow> tc\<lparr>tc_frame_num := tc_frame_num tc + n\<rparr>
      | FloatTarget x \<Rightarrow> tc\<lparr>tc_frame_num := tc_frame_num tc + seconds_to_frames E (tc_framerate tc) x\<rparr>
      | TimecodeTarget t \<Rightarrow> tc\<lparr>tc_frame_num := tc_frame_num tc + tc_frame_num t\<rparr>)"

section \<open>The OpenCV adapter (\<^verbatim>\<open>class VideoStreamCv2\<close>)\<close>

text \<open>
  The fields of a constructed adapter. \<^verbatim>\<open>_cap\<close> and \<^verbatim>\<open>_frame_rate\<close> are \<open>None\<close>
  only inside \<^verbatim>\<open>__init__\<close>, before \<^verbatim>\<open>_open_capture\<close> has returned; an adapter whose
  constructor raised does not exist. \<^verbatim>\<open>_is_device\<close> is computed once from
  \<^verbatim>\<open>_path_or_device\<close>, which is never assigned again.
\<close>

record 'c video_stream_cv2 = video_stream +
  path_or_device :: source
  cap :: 'c
  frame_rate :: real
  has_seeked :: bool
  has_grabbed :: bool

definition is_device :: "'c video_stream_cv2 \<Rightarrow> bool" where
  "is_device s = (case path_or_device s of Device d \<Rightarrow> True | Path p \<Rightarrow> False)"

definition is_seekable :: "'c video_stream_cv2 \<Rightarrow> bool" where
  "is_seekable s = (\<not> is_device s)"

definition base_timecode :: "'c video_stream_cv2 \<Rightarrow> frame_timecode" where
  "base_timecode s = FrameTimecode 0 (frame_rate s)"

definition frame_size :: "('c, 'f) externals \<Rightarrow> 'c video_stream_cv2 \<Rightarrow> int \<times> int" where
  "frame_size E s =
     (trunc (cap_get E (cap s) CAP_PROP_FRAME_WIDTH),
      trunc (cap_get E (cap s) CAP_PROP_FRAME_HEIGHT))"

definition duration :: "('c, 'f) externals \<Rightarrow> 'c video_stream_cv2 \<Rightarrow> frame_timecode option" where
  "duration E s =
     (if is_device s then None
      else Some (timecode_add E (base_timecode s)
                   (IntTarget (trunc (cap_get E (cap s) CAP_PROP_FRAME_COUNT)))))"

definition frame_number :: "('c, 'f) externals \<Rightarrow> 'c video_stream_cv2 \<Rightarrow> int" where
  "frame_number E s = trunc (cap_get E (cap s) CAP_PROP_POS_FRAMES)"

definition position :: "('c, 'f) externals \<Rightarrow> 'c video_stream_cv2 \<Rightarrow> frame_timecode" where
  "position E s =
     (if frame_number E s < 1 then base_timecode s
      else timecode_add E (base_timecode s) (IntTarget (frame_number E s - 1)))"

definition position_ms :: "('c, 'f) externals \<Rightarrow> 'c video_stream_cv2 \<Rightarrow> error + real" where
  "position_ms E s =
     (if has_seeked s then Inl RuntimeError
      else Inr (cap_get E (cap s) CAP_PROP_POS_MSEC))"

text \<open>
  \<^verbatim>\<open>seek\<close>, check by check in the order of the source. The first \<open>int\<close> check is
  \<^verbatim>\<open>not target > 0\<close>; the branch for the \<open>int\<close> 0 follows the two argument checks.
\<close>

definition seek ::
    "('c, 'f) externals \<Rightarrow> 'c video_stream_cv2 \<Rightarrow> target \<Rightarrow> error + 'c video_stream_cv2" where
  "seek E s target =
     (if is_device s then Inl SeekError
      else if (case target of IntTarget n \<Rightarrow> \<not> n > 0 | _ \<Rightarrow> False) then Inl ValueError
      else if (case target of FloatTarget x \<Rightarrow> x < 0 | _ \<Rightarrow> False) then Inl ValueError
      else if (case target of IntTarget n \<Rightarrow> n = 0 | _ \<Rightarrow> False) then
        Inr (s\<lparr>cap := cap_set E (cap s) CAP_PROP_POS_FRAMES 0, has_grabbed := False\<rparr>)
      else
        let target' = (case target of IntTarget n \<Rightarrow> IntTarget (n - 1) | _ \<Rightarrow> target);
            target_frame_cv2 = get_frames (timecode_add E (base_timecode s) target');
            c = cap_set E (cap s) CAP_PROP_POS_FRAMES (of_int target_frame_cv2)
        in Inr (s\<lparr>cap := snd (grab E c), has_grabbed := True\<rparr>))"

text \<open>
  \<^verbatim>\<open>read\<close> returns the frame (or \<open>None\<close>) and leaves the adapter updated. The flag that
  \<^verbatim>\<open>grab\<close> returns is dropped, as is the one of \<^verbatim>\<open>retrieve\<close>.
\<close>

definition read ::
    "('c, 'f) externals \<Rightarrow> 'c video_stream_cv2 \<Rightarrow> bool \<Rightarrow> bool \<Rightarrow> 'f option \<times> 'c video_stream_cv2" where
  "read E s decode advance =
     (if \<not> isOpened E (cap s) then (None, s)
      else
        let s1 = (if advance
                  then s\<lparr>cap := snd (grab E (cap s)), has_grabbed := True, has_seeked := False\<rparr>
                  else s)
        in if decode \<and> has_grabbed s1
           then (snd (fst (retrieve E (cap s1))), s1\<lparr>cap := snd (retrieve E (cap s1))\<rparr>)
           else (None, s1))"

text \<open>\<^verbatim>\<open>'%' in path\<close> and \<^verbatim>\<open>'://' in path\<close>: substring tests.\<close>

fun substring_in :: "string \<Rightarrow> string \<Rightarrow> bool" where
  "substring_in sub [] = (sub = [])"
| "substring_in sub (c # cs) = (take (length sub) (c # cs) = sub \<or> substring_in sub cs)"

text \<open>\<^verbatim>\<open>not framerate\<close>: true of \<open>None\<close> and of a zero.\<close>

definition not_framerate :: "real option \<Rightarrow> bool" where
  "not_framerate framerate = (framerate = None \<or> framerate = Some 0)"

text \<open>
  \<^verbatim>\<open>_open_capture\<close>: the checks in the order of the source; on success the new decoder
  and the resolved frame rate, which the caller stores together with
  \<^verbatim>\<open>_has_seeked = False\<close> and \<^verbatim>\<open>_has_grabbed = False\<close>. The codec diagnostic is only
  logged and changes nothing.
\<close>

definition open_capture ::
    "('c, 'f) externals \<Rightarrow> source \<Rightarrow> real option \<Rightarrow> error + ('c \<times> real)" where
  "open_capture E pod framerate =
     (if (case pod of Device d \<Rightarrow> d < 0 | Path p \<Rightarrow> False) then Inl ValueError
      else if (case pod of Device d \<Rightarrow> False
               | Path p \<Rightarrow> \<not> (substring_in ''%'' p \<or> substring_in ''://'' p)
                           \<and> \<not> path_exists E p)
        then Inl IOError
      else
        let c = VideoCapture E pod
        in if \<not> isOpened E c then Inl VideoOpenFailure
           else if not_framerate framerate then
             (let fr = cap_get E c CAP_PROP_FPS
              in if fr < MINIMUM_FRAMES_PER_SECOND_FLOAT E then Inl VideoOpenFailure
                 else Inr (c, fr))
           else Inr (c, the framerate))"

text \<open>\<^verbatim>\<open>VideoStreamCv2(path_or_device, override_framerate)\<close>: the constructor.\<close>

definition VideoStreamCv2 ::
    "('c, 'f) externals \<Rightarrow> source \<Rightarrow> real option \<Rightarrow> error + 'c video_stream_cv2" where
  "VideoStreamCv2 E pod override_framerate =
     (case open_capture E pod override_framerate of
        Inl e \<Rightarrow> Inl e
      | Inr (c, fr) \<Rightarrow>
          Inr \<lparr>downscale = 1, path_or_device = pod, cap = c, frame_rate = fr,
               has_seeked = False, has_grabbed = False\<rparr>)"

text \<open>\<^verbatim>\<open>reset\<close>: the old decoder is released and dropped, a new one is opened.\<close>

definition reset ::
    "('c, 'f) externals \<Rightarrow> 'c video_stream_cv2 \<Rightarrow> error + 'c video_stream_cv2" where
  "reset E s =
     (case open_capture E (path_or_device s) (Some (frame_rate s)) of
        Inl e \<Rightarrow> Inl e
      | Inr (c, fr) \<Rightarrow>
          Inr (s\<lparr>cap := c, frame_rate := fr, has_seeked := False, has_grabbed := False\<rparr>))"

definition downscale_auto ::
    "('c, 'f) externals \<Rightarrow> 'c video_stream_cv2 \<Rightarrow> error + ('c video_stream_cv2 \<times> bool)" where
  "downscale_auto E s = set_downscale s (PyInt (compute_downscale_factor (fst (frame_size E s))))"

section \<open>A counting decoder\<close>

text \<open>
  A small decoder on which the definitions can be run: it is open, every grab moves its
  position one frame on, a position-set is read back as it was written, and frame \<open>n\<close>
  is presented at \<open>(n - 1) * 1000 / fps\<close> milliseconds. The frame buffer it retrieves
  is the number of the frame. It reports the frame rate it is given, and takes
  \<open>1 / 1000\<close> for \<^verbatim>\<open>MINIMUM_FRAMES_PER_SECOND_FLOAT\<close>.
\<close>

record counting_capture =
  cc_opened :: bool
  cc_pos_frames :: real
  cc_fps :: real

definition counting_get :: "counting_capture \<Rightarrow> cap_prop \<Rightarrow> real" where
  "counting_get c p =
     (case p of
        CAP_PROP_POS_FRAMES \<Rightarrow> cc_pos_frames c
      | CAP_PROP_POS_MSEC \<Rightarrow>
          (if cc_pos_frames c < 1 then 0 else (cc_pos_frames c - 1) * 1000 / cc_fps c)
      | CAP_PROP_FPS \<Rightarrow> cc_fps c
      | CAP_PROP_FRAME_WIDTH \<Rightarrow> 1920
      | CAP_PROP_FRAME_HEIGHT \<Rightarrow> 1080
      | CAP_PROP_FOURCC \<Rightarrow> 1
      | CAP_PROP_FRAME_COUNT \<Rightarrow> 1000)"

definition counting_set :: "counting_capture \<Rightarrow> cap_prop \<Rightarrow> real \<Rightarrow> counting_capture" where
  "counting_set c p v = (case p of CAP_PROP_POS_FRAMES \<Rightarrow> c\<lparr>cc_pos_frames := v\<rparr> | _ \<Rightarrow> c)"

definition counting_decoder :: "real \<Rightarrow> (counting_capture, int) externals" where
  "counting_decoder fps =
     \<lparr>VideoCapture = (\<lambda>src. \<lparr>cc_opened = True, cc_pos_frames = 0, cc_fps = fps\<rparr>),
      isOpened = cc_opened,
      cap_get = counting_get,
      cap_set = counting_set,
      grab = (\<lambda>c. (True, c\<lparr>cc_pos_frames := cc_pos_frames c + 1\<rparr>)),
      retrieve = (\<lambda>c. ((True, Some (trunc (cc_pos_frames c))), c)),
      path_exists = (\<lambda>p. True),
      MINIMUM_FRAMES_PER_SECOND_FLOAT = 1 / 1000,
      seconds_to_frames = (\<lambda>fps secs. \<lfloor>secs * fps\<rfloor>)\<rparr>"

text \<open>The adapter that opening \<^verbatim>\<open>video.mp4\<close> on the counting decoder at 25 fps gives.\<close>

definition counting_capture_at :: "real \<Rightarrow> counting_capture" where
  "counting_capture_at n = \<lparr>cc_opened = True, cc_pos_frames = n, cc_fps = 25\<rparr>"

definition opened_stream :: "counting_capture video_stream_cv2" where
  "opened_stream =
     \<lparr>downscale = 1, path_or_device = Path ''video.mp4'', cap = counting_capture_at 0,
      frame_rate = 25, has_seeked = False, has_grabbed = False\<rparr>"

text \<open>The same adapter after \<^verbatim>\<open>seek(5)\<close>, on a device, and with its decoder closed.\<close>

definition seeked_stream :: "counting_capture video_stream_cv2" where
  "seeked_stream = opened_stream\<lparr>cap := counting_capture_at 5, has_grabbed := True\<rparr>"

definition device_stream :: "counting_capture video_stream_cv2" where
  "device_stream = opened_stream\<lparr>path_or_device := Device 0\<rparr>"

definition closed_stream :: "counting_capture video_stream_cv2" where
  "closed_stream = opened_stream\<lparr>cap := (counting_capture_at 0)\<lparr>cc_opened := False\<rparr>\<rparr>"

text \<open>
  The counting decoder with a last frame: at position 1000, the frame count it reports,
  a grab fails and leaves the position where it is.
\<close>

definition last_frame_grab :: "counting_capture \<Rightarrow> bool \<times> counting_capture" where
  "last_frame_grab c =
     (if cc_pos_frames c < 1000 then (True, c\<lparr>cc_pos_frames := cc_pos_frames c + 1\<rparr>)
      else (False, c))"

definition last_frame_decoder :: "(counting_capture, int) externals" where
  "last_frame_decoder = (counting_decoder 25)\<lparr>grab := last_frame_grab\<rparr>"

text \<open>The adapter opened on it after \<^verbatim>\<open>seek(1000)\<close>, the last frame.\<close>

definition seeked_last_frame :: "counting_capture video_stream_cv2" where
  "seeked_last_frame = opened_stream\<lparr>cap := counting_capture_at 1000, has_grabbed := True\<rparr>"

section \<open>Conditions used in the statements\<close>

text \<open>
  The checks of \<^verbatim>\<open>_open_capture\<close> that come before the frame rate is resolved all pass:
  the device index is not negative, a plain path exists, and the decoder reports that it
  is opened.
\<close>

definition reaches_frame_rate :: "('c, 'f) externals \<Rightarrow> source \<Rightarrow> bool" where
  "reaches_frame_rate E pod =
     ((case pod of
         Device d \<Rightarrow> 0 \<le> d
       | Path p \<Rightarrow> substring_in ''%'' p \<or> substring_in ''://'' p \<or> path_exists E p)
      \<and> isOpened E (VideoCapture E pod))"


definition grab_advances :: "('c, 'f) externals \<Rightarrow> 'c \<Rightarrow> bool" where
  "grab_advances E c =
     (cap_get E (snd (grab E c)) CAP_PROP_POS_FRAMES = cap_get E c CAP_PROP_POS_FRAMES + 1)"


text \<open>The adapter a successful \<^verbatim>\<open>_open_capture\<close> leaves, at frame rate \<open>fr\<close>.\<close>

definition fresh_stream :: "('c, 'f) externals \<Rightarrow> source \<Rightarrow> real \<Rightarrow> 'c video_stream_cv2" where
  "fresh_stream E pod fr =
     \<lparr>downscale = 1, path_or_device = pod, cap = VideoCapture E pod, frame_rate = fr,
      has_seeked = False, has_grabbed = False\<rparr>"

section \<open>The counting decoder at work\<close>


lemma counting_decoder_seek_5:
  "seek (counting_decoder 25) opened_stream (IntTarget 5) = Inr seeked_stream"
  by (simp add: seek_def is_device_def opened_stream_def seeked_stream_def counting_decoder_def
        counting_set_def counting_capture_at_def base_timecode_def FrameTimecode_def
        timecode_add_def get_frames_def)

lemma counting_decoder_reaches_frame_rate:
  "reaches_frame_rate (counting_decoder fps) (Path ''video.mp4'')"
  by (simp add: reaches_frame_rate_def counting_decoder_def)

section \<open>Properties of the downscale policy\<close>

lemma sorted_keys_desc_default:
  "sorted_keys_desc DEFAULT_DOWNSCALE_FACTORS = [3200, 2100, 1700, 1200, 900, 600, 400]"
  by (simp add: sorted_keys_desc_def DEFAULT_DOWNSCALE_FACTORS_def)

lemma compute_downscale_factor_cases:
  "compute_downscale_factor w =
     (if 3200 \<le> w then 12 else if 2100 \<le> w then 8 else if 1700 \<le> w then 6
      else if 1200 \<le> w then 5 else if 900 \<le> w then 4 else if 600 \<le> w then 3
      else if 400 \<le> w then 2 else 1)"
  by (simp add: compute_downscale_factor_def sorted_keys_desc_default)
     (simp add: DEFAULT_DOWNSCALE_FACTORS_def)

lemma thresholds_upto_cases:
  "thresholds_upto
       [(3200, 12), (2100, 8), (1700, 6), (1200, 5), (900, 4), (600, 3), (400, 2)] w =
     (if 3200 \<le> w then [3200, 2100, 1700, 1200, 900, 600, 400]
      else if 2100 \<le> w then [2100, 1700, 1200, 900, 600, 400]
      else if 1700 \<le> w then [1700, 1200, 900, 600, 400]
      else if 1200 \<le> w then [1200, 900, 600, 400]
      else if 900 \<le> w then [900, 600, 400]
      else if 600 \<le> w then [600, 400]
      else if 400 \<le> w then [400] else [])"
  by (simp add: thresholds_upto_def)

lemma downscale_by_largest_threshold_cases:
  "downscale_by_largest_threshold
       [(3200, 12), (2100, 8), (1700, 6), (1200, 5), (900, 4), (600, 3), (400, 2)] w =
     (if 3200 \<le> w then 12 else if 2100 \<le> w then 8 else if 1700 \<le> w then 6
      else if 1200 \<le> w then 5 else if 900 \<le> w then 4 else if 600 \<le> w then 3
      else if 400 \<le> w then 2 else 1)"
  unfolding downscale_by_largest_threshold_def thresholds_upto_cases
  by simp

text \<open>
  C8. For every integer frame width \<open>w\<close>, \<open>compute_downscale_factor w\<close> is the factor
  paired with the largest threshold of the table 3200: 12, 2100: 8, 1700: 6, 1200: 5,
  900: 4, 600: 3, 400: 2 that does not exceed \<open>w\<close>, the table being written out in the
  statement; that is 12 from 3200 on, 8 from 2100, 6 from 1700, 5 from 1200, 4 from 900,
  3 from 600, 2 from 400, and exactly 1 below 400, the smallest threshold; and a narrower
  frame never gets a larger factor.
\<close>

theorem compute_downscale_factor_largest_threshold:
  "compute_downscale_factor w
     = downscale_by_largest_threshold
         [(3200, 12), (2100, 8), (1700, 6), (1200, 5), (900, 4), (600, 3), (400, 2)] w
   \<and> compute_downscale_factor w
     = (if 3200 \<le> w then 12 else if 2100 \<le> w then 8 else if 1700 \<le> w then 6
        else if 1200 \<le> w then 5 else if 900 \<le> w then 4 else if 600 \<le> w then 3
        else if 400 \<le> w then 2 else 1)
   \<and> Min (set (map fst DEFAULT_DOWNSCALE_FACTORS)) = 400
   \<and> (w < 400 \<longrightarrow> compute_downscale_factor w = 1)
   \<and> (\<forall>w'. w' \<le> w \<longrightarrow> compute_downscale_factor w' \<le> compute_downscale_factor w)"
proof -
  have table: "compute_downscale_factor w
     = downscale_by_largest_threshold
         [(3200, 12), (2100, 8), (1700, 6), (1200, 5), (900, 4), (600, 3), (400, 2)] w"
    by (simp only: compute_downscale_factor_cases downscale_by_largest_threshold_cases)
  have smallest: "Min (set (map fst DEFAULT_DOWNSCALE_FACTORS)) = 400"
    by (simp add: DEFAULT_DOWNSCALE_FACTORS_def)
  have below: "w < 400 \<longrightarrow> compute_downscale_factor w = 1"
    by (simp add: compute_downscale_factor_cases)
  have mono: "\<forall>w'. w' \<le> w \<longrightarrow> compute_downscale_factor w' \<le> compute_downscale_factor w"
    by (simp add: compute_downscale_factor_cases)
  from table compute_downscale_factor_cases [of w] smallest below mono
  show ?thesis by blast
qed

theorem compute_downscale_factor_largest_threshold_witness:
  "compute_downscale_factor 1920
     = downscale_by_largest_threshold
         [(3200, 12), (2100, 8), (1700, 6), (1200, 5), (900, 4), (600, 3), (400, 2)] 1920
   \<and> compute_downscale_factor 3200 = 12 \<and> compute_downscale_factor 2100 = 8
   \<and> compute_downscale_factor 1920 = 6 \<and> compute_downscale_factor 1200 = 5
   \<and> compute_downscale_factor 900 = 4 \<and> compute_downscale_factor 600 = 3
   \<and> compute_downscale_factor 400 = 2
   \<and> (399::int) < 400 \<and> compute_downscale_factor 399 = 1
   \<and> (1280::int) \<le> 1920 \<and> compute_downscale_factor 1280 \<le> compute_downscale_factor 1920"
  using compute_downscale_factor_largest_threshold [of 1920]
    compute_downscale_factor_largest_threshold [of 3200]
    compute_downscale_factor_largest_threshold [of 2100]
    compute_downscale_factor_largest_threshold [of 1200]
    compute_downscale_factor_largest_threshold [of 900]
    compute_downscale_factor_largest_threshold [of 600]
    compute_downscale_factor_largest_threshold [of 400]
    compute_downscale_factor_largest_threshold [of 399]
    compute_downscale_factor_largest_threshold [of 1280]
  by simp

section \<open>Properties of the downscale setter\<close>




lemma compute_downscale_factor_ge_one: "1 \<le> compute_downscale_factor w"
  by (simp add: compute_downscale_factor_cases)

text \<open>
  The other writers and non-writers of \<^verbatim>\<open>_downscale\<close>: \<^verbatim>\<open>downscale_auto\<close> always
  passes the setter's check, and \<^verbatim>\<open>seek\<close>, \<^verbatim>\<open>read\<close> and \<^verbatim>\<open>reset\<close> leave the field
  alone.
\<close>

lemma downscale_auto_succeeds:
  "downscale_auto E s
     = Inr (s\<lparr>downscale := compute_downscale_factor (fst (frame_size E s))\<rparr>, False)"
  using compute_downscale_factor_ge_one [of "fst (frame_size E s)"]
  by (simp add: downscale_auto_def set_downscale_def number_less_def)

lemma downscale_kept:
  "(seek E s target = Inr s1 \<longrightarrow> downscale s1 = downscale s)
   \<and> downscale (snd (read E s decode advance)) = downscale s
   \<and> (reset E s = Inr s2 \<longrightarrow> downscale s2 = downscale s)"
  by (auto simp: seek_def read_def reset_def Let_def split: if_splits sum.splits prod.splits)



section \<open>Seeking\<close>

text \<open>
  Two facts about \<^verbatim>\<open>seek\<close> on any decoder. No branch of it assigns \<^verbatim>\<open>_has_seeked\<close>,
  and the \<open>int\<close> 0 fails the check \<^verbatim>\<open>not target > 0\<close>, so the branch written for it
  is never taken.
\<close>

lemma seek_keeps_has_seeked: "seek E s target = Inr s' \<Longrightarrow> has_seeked s' = has_seeked s"
  by (auto simp: seek_def Let_def split: if_splits)

lemma seek_int_zero_raises: "\<not> is_device s \<Longrightarrow> seek E s (IntTarget 0) = Inl ValueError"
  by (simp add: seek_def)

text \<open>
  C1. After \<^verbatim>\<open>seek(5)\<close> and before any advancing read, \<^verbatim>\<open>position_ms\<close> is claimed to
  fail with the stale-state error. On the adapter opened on the counting decoder the seek
  completes with \<^verbatim>\<open>_has_seeked\<close> still false, and \<^verbatim>\<open>position_ms\<close> returns the decoder's
  160 ms instead of raising.
\<close>

theorem position_ms_after_seek_returns:
  "seek (counting_decoder 25) opened_stream (IntTarget 5) = Inr seeked_stream
   \<and> position_ms (counting_decoder 25) seeked_stream = Inr 160"
  by (simp add: counting_decoder_seek_5)
     (simp add: position_ms_def seeked_stream_def opened_stream_def counting_decoder_def
        counting_get_def counting_capture_at_def)

text \<open>
  C2. \<^verbatim>\<open>seek(0)\<close> on a seekable adapter is claimed to be accepted and to return the
  adapter to its initial state. On the adapter opened on the counting decoder it raises
  \<open>ValueError\<close>.
\<close>

theorem seek_zero_raises_value_error:
  "seek (counting_decoder 25) opened_stream (IntTarget 0) = Inl ValueError"
  by (simp add: seek_def is_device_def opened_stream_def)

text \<open>
  C3. A valid non-zero seek is claimed to leave \<open>has_seeked = true\<close> and
  \<open>has_grabbed = true\<close> after one position-set and one grab. \<^verbatim>\<open>seek(5)\<close> on the adapter
  opened on the counting decoder sets the decoder to native frame 4, grabs once and sets
  \<^verbatim>\<open>_has_grabbed\<close>, but \<^verbatim>\<open>_has_seeked\<close> is false afterwards.
\<close>

theorem seek_leaves_has_seeked_false:
  "seek (counting_decoder 25) opened_stream (IntTarget 5) = Inr seeked_stream
   \<and> cap seeked_stream
       = snd (grab (counting_decoder 25)
                (cap_set (counting_decoder 25) (cap opened_stream) CAP_PROP_POS_FRAMES 4))
   \<and> has_grabbed seeked_stream = True
   \<and> has_seeked seeked_stream = False"
  by (simp add: counting_decoder_seek_5)
     (simp add: seeked_stream_def opened_stream_def counting_decoder_def counting_set_def
        counting_capture_at_def)



lemma seek_last_frame_then_read:
  "seek last_frame_decoder opened_stream (IntTarget 1000) = Inr seeked_last_frame
   \<and> frame_number last_frame_decoder seeked_last_frame = 1000
   \<and> \<not> grab_advances last_frame_decoder (cap seeked_last_frame)
   \<and> frame_number last_frame_decoder
         (snd (read last_frame_decoder seeked_last_frame True True)) = 1000"
  by (simp add: seek_def is_device_def opened_stream_def seeked_last_frame_def
        last_frame_decoder_def last_frame_grab_def counting_decoder_def counting_set_def
        counting_get_def counting_capture_at_def base_timecode_def FrameTimecode_def
        timecode_add_def get_frames_def read_def frame_number_def grab_advances_def
        trunc_def Let_def)



text \<open>
  C9. On a device-backed adapter \<^verbatim>\<open>seek\<close> raises \<open>SeekError\<close> for every target, also for
  one that the argument checks would reject: the device check comes first, and the
  decoder is not touched.
\<close>

theorem seek_on_device_raises_seek_error:
  "is_device s \<Longrightarrow> seek E s target = Inl SeekError"
  by (simp add: seek_def)

theorem seek_on_device_raises_seek_error_witness:
  "is_device device_stream
   \<and> seek (counting_decoder 25) device_stream (IntTarget (- 1)) = Inl SeekError
   \<and> seek (counting_decoder 25) device_stream (FloatTarget (- 1 / 2)) = Inl SeekError
   \<and> seek (counting_decoder 25) device_stream (IntTarget 5) = Inl SeekError"
proof -
  have d: "is_device device_stream"
    by (simp add: is_device_def device_stream_def)
  show ?thesis
    using d
      seek_on_device_raises_seek_error [OF d, of "counting_decoder 25" "IntTarget (- 1)"]
      seek_on_device_raises_seek_error [OF d, of "counting_decoder 25" "FloatTarget (- 1 / 2)"]
      seek_on_device_raises_seek_error [OF d, of "counting_decoder 25" "IntTarget 5"]
    by simp
qed

section \<open>Opening\<close>

text \<open>
  C5, as stated: without an override a reported frame rate at or below the threshold
  fails the open, and an override that is supplied is used. On the counting decoder a
  reported rate of exactly the threshold, \<open>1 / 1000\<close>, opens the adapter at that rate;
  and the override 0 is not used: the adapter opens at the decoder's 25.
\<close>

theorem open_frame_rate_counterexample:
  "cap_get (counting_decoder (1 / 1000))
       (VideoCapture (counting_decoder (1 / 1000)) (Path ''video.mp4'')) CAP_PROP_FPS
     \<le> MINIMUM_FRAMES_PER_SECOND_FLOAT (counting_decoder (1 / 1000))
   \<and> VideoStreamCv2 (counting_decoder (1 / 1000)) (Path ''video.mp4'') None
       = Inr (fresh_stream (counting_decoder (1 / 1000)) (Path ''video.mp4'') (1 / 1000))
   \<and> VideoStreamCv2 (counting_decoder 25) (Path ''video.mp4'') (Some 0) = Inr opened_stream
   \<and> frame_rate opened_stream = 25"
  by (simp add: Let_def VideoStreamCv2_def open_capture_def not_framerate_def fresh_stream_def
        counting_decoder_def counting_get_def opened_stream_def counting_capture_at_def)

text \<open>
  C5, amended. Once the checks before the frame rate pass: without an override, a
  reported rate strictly below the threshold fails with \<open>VideoOpenFailure\<close>, and a
  reported rate at or above it becomes the adapter's frame rate; an override other than
  zero becomes the adapter's frame rate whatever the decoder reports.
\<close>

theorem open_frame_rate_resolution:
  assumes "reaches_frame_rate E pod"
  shows "(cap_get E (VideoCapture E pod) CAP_PROP_FPS < MINIMUM_FRAMES_PER_SECOND_FLOAT E \<longrightarrow>
            VideoStreamCv2 E pod None = Inl VideoOpenFailure)
       \<and> (MINIMUM_FRAMES_PER_SECOND_FLOAT E \<le> cap_get E (VideoCapture E pod) CAP_PROP_FPS \<longrightarrow>
            VideoStreamCv2 E pod None
              = Inr (fresh_stream E pod (cap_get E (VideoCapture E pod) CAP_PROP_FPS)))
       \<and> (f \<noteq> 0 \<longrightarrow> VideoStreamCv2 E pod (Some f) = Inr (fresh_stream E pod f))"
  using assms
  by (cases pod)
     (auto simp: reaches_frame_rate_def VideoStreamCv2_def open_capture_def not_framerate_def
        fresh_stream_def Let_def)

theorem open_frame_rate_resolution_witness:
  "reaches_frame_rate (counting_decoder (1 / 2000)) (Path ''video.mp4'')
   \<and> VideoStreamCv2 (counting_decoder (1 / 2000)) (Path ''video.mp4'') None
       = Inl VideoOpenFailure
   \<and> VideoStreamCv2 (counting_decoder 25) (Path ''video.mp4'') None = Inr opened_stream
   \<and> VideoStreamCv2 (counting_decoder 25) (Path ''video.mp4'') (Some 30)
       = Inr (opened_stream\<lparr>frame_rate := 30\<rparr>)"
  using open_frame_rate_resolution [OF counting_decoder_reaches_frame_rate, of "1 / 2000" 30]
    open_frame_rate_resolution [OF counting_decoder_reaches_frame_rate, of 25 30]
    counting_decoder_reaches_frame_rate [of "1 / 2000"]
  by (simp add: fresh_stream_def counting_decoder_def counting_get_def opened_stream_def
        counting_capture_at_def)

section \<open>Reading and position reporting\<close>

text \<open>
  C6. For every adapter and both flags: with the decoder not open \<^verbatim>\<open>read\<close> returns no
  frame and changes nothing; with \<open>advance\<close> it grabs once, sets \<open>has_grabbed\<close> and clears
  \<open>has_seeked\<close>; with \<open>decode\<close> and a grabbed frame (just grabbed, or from before) it
  retrieves and returns the frame buffer; in every other case it returns no frame.
\<close>

theorem read_behaviour:
  "(\<not> isOpened E (cap s) \<longrightarrow> read E s decode advance = (None, s))
   \<and> (isOpened E (cap s) \<and> advance \<and> decode \<longrightarrow>
        read E s decode advance =
          (snd (fst (retrieve E (snd (grab E (cap s))))),
           s\<lparr>cap := snd (retrieve E (snd (grab E (cap s)))),
             has_grabbed := True, has_seeked := False\<rparr>))
   \<and> (isOpened E (cap s) \<and> advance \<and> \<not> decode \<longrightarrow>
        read E s decode advance =
          (None, s\<lparr>cap := snd (grab E (cap s)), has_grabbed := True, has_seeked := False\<rparr>))
   \<and> (isOpened E (cap s) \<and> \<not> advance \<and> decode \<and> has_grabbed s \<longrightarrow>
        read E s decode advance =
          (snd (fst (retrieve E (cap s))), s\<lparr>cap := snd (retrieve E (cap s))\<rparr>))
   \<and> (isOpened E (cap s) \<and> \<not> advance \<and> \<not> (decode \<and> has_grabbed s) \<longrightarrow>
        read E s decode advance = (None, s))"
  by (simp add: read_def Let_def)

theorem read_behaviour_witness:
  "isOpened (counting_decoder 25) (cap opened_stream)
   \<and> read (counting_decoder 25) opened_stream True True
       = (Some 1, opened_stream\<lparr>cap := counting_capture_at 1, has_grabbed := True\<rparr>)
   \<and> read (counting_decoder 25) opened_stream False True
       = (None, opened_stream\<lparr>cap := counting_capture_at 1, has_grabbed := True\<rparr>)
   \<and> read (counting_decoder 25) opened_stream True False = (None, opened_stream)
   \<and> has_grabbed seeked_stream
   \<and> read (counting_decoder 25) seeked_stream True False = (Some 5, seeked_stream)
   \<and> \<not> isOpened (counting_decoder 25) (cap closed_stream)
   \<and> read (counting_decoder 25) closed_stream True True = (None, closed_stream)"
  using read_behaviour [of "counting_decoder 25" opened_stream True True]
    read_behaviour [of "counting_decoder 25" opened_stream False True]
    read_behaviour [of "counting_decoder 25" opened_stream True False]
    read_behaviour [of "counting_decoder 25" seeked_stream True False]
    read_behaviour [of "counting_decoder 25" closed_stream True True]
  by (simp add: counting_decoder_def opened_stream_def seeked_stream_def closed_stream_def
        counting_capture_at_def trunc_def)

text \<open>
  C7. In every adapter state \<open>position\<close> is \<open>base_timecode\<close> when \<open>frame_number < 1\<close> and
  \<open>base_timecode + (frame_number - 1)\<close> when \<open>frame_number \<ge> 1\<close>; so its frame count is
  \<open>frame_number - 1\<close>, cut off at 0, at the adapter's frame rate.
\<close>

theorem position_from_frame_number:
  "(frame_number E s < 1 \<longrightarrow> position E s = base_timecode s)
   \<and> (1 \<le> frame_number E s \<longrightarrow>
        position E s = timecode_add E (base_timecode s) (IntTarget (frame_number E s - 1)))
   \<and> get_frames (position E s) = max 0 (frame_number E s - 1)
   \<and> tc_framerate (position E s) = frame_rate s"
  by (simp add: position_def base_timecode_def FrameTimecode_def timecode_add_def get_frames_def)

theorem position_from_frame_number_witness:
  "frame_number (counting_decoder 25) opened_stream < 1
   \<and> position (counting_decoder 25) opened_stream = FrameTimecode 0 25
   \<and> 1 \<le> frame_number (counting_decoder 25) seeked_stream
   \<and> frame_number (counting_decoder 25) seeked_stream = 5
   \<and> position (counting_decoder 25) seeked_stream = FrameTimecode 4 25"
proof -
  have f0: "frame_number (counting_decoder 25) opened_stream = 0"
    by (simp add: frame_number_def counting_decoder_def counting_get_def opened_stream_def
          counting_capture_at_def trunc_def)
  have f5: "frame_number (counting_decoder 25) seeked_stream = 5"
    by (simp add: frame_number_def counting_decoder_def counting_get_def opened_stream_def
          seeked_stream_def counting_capture_at_def trunc_def)
  have r0: "frame_rate opened_stream = 25"
    by (simp add: opened_stream_def)
  have r5: "frame_rate seeked_stream = 25"
    by (simp add: seeked_stream_def opened_stream_def)
  show ?thesis
    using position_from_frame_number [of "counting_decoder 25" opened_stream]
      position_from_frame_number [of "counting_decoder 25" seeked_stream]
    by (simp add: f0 f5 r0 r5 base_timecode_def FrameTimecode_def timecode_add_def)
qed

end
